theory Spec2Isabelle
  imports Complex_Main "HOL-Library.Stream"
begin

section \<open>Simple Banking System: the Python program as HOL functions\<close>

text \<open>
  The development follows \<^verbatim>\<open>banking.py\<close> and \<^verbatim>\<open>database.py\<close> function by function.
  Conventions of the embedding:
  \<^item> a Python \<^verbatim>\<open>str\<close> is a \<^typ>\<open>string\<close>; a \<^typ>\<open>char\<close> stands for a code point below 256
    (code points above that are outside the model);
  \<^item> a Python \<^verbatim>\<open>int\<close> is an \<^typ>\<open>int\<close>. The \<^verbatim>\<open>INTEGER\<close> column of the table is
    idealised in the same way (SQLite stores 64-bit values), and the interpreter's
    configurable limit on the number of digits that \<^verbatim>\<open>int()\<close> and \<^verbatim>\<open>str()\<close> convert
    is not modelled;
  \<^item> an exception of a pure function is the left summand of \<^verbatim>\<open>error + 'a\<close>; a function
    that reads the console, draws random numbers or talks to the database takes the
    \<open>world\<close> and returns a \<open>result\<close>, which carries the world at the moment of the
    return or of the raise (the database file outlives the process).
\<close>

subsection \<open>Exceptions\<close>

datatype error =
    ValueError | IndexError | EOFError | NotImplementedError | IntegrityError | SystemExit

subsection \<open>The builtins \<^verbatim>\<open>int()\<close> and \<^verbatim>\<open>str()\<close>\<close>

definition py_isspace :: "char \<Rightarrow> bool" where
  \<comment> \<open>what \<^verbatim>\<open>int()\<close> strips: tab, LF, VT, FF, CR, space, NEL, NBSP\<close>
  "py_isspace c \<longleftrightarrow> (of_char c :: nat) \<in> {9, 10, 11, 12, 13, 32, 133, 160}"

definition py_isdigit :: "char \<Rightarrow> bool" where
  "py_isdigit c \<longleftrightarrow> 48 \<le> (of_char c :: nat) \<and> (of_char c :: nat) \<le> 57"

definition digit_val :: "char \<Rightarrow> int" where
  "digit_val c = int (of_char c) - 48"

fun digits_ok :: "string \<Rightarrow> bool" where
  \<comment> \<open>decimal digits, single underscores allowed between two digits\<close>
  "digits_ok [] = False"
| "digits_ok [c] = py_isdigit c"
| "digits_ok (c # d # r) =
     (py_isdigit c \<and> (if d = CHR ''_'' then digits_ok r else digits_ok (d # r)))"

definition digits_value :: "string \<Rightarrow> int" where
  "digits_value body =
     foldl (\<lambda>acc c. acc * 10 + digit_val c) 0 (filter (\<lambda>c. c \<noteq> CHR ''_'') body)"

definition py_strip :: "string \<Rightarrow> string" where
  "py_strip s = rev (dropWhile py_isspace (rev (dropWhile py_isspace s)))"

definition py_int :: "string \<Rightarrow> error + int" where
  \<comment> \<open>\<^verbatim>\<open>int(s)\<close> for a string, base 10\<close>
  "py_int s =
     (let t = py_strip s;
          neg = (case t of [] \<Rightarrow> False | c # r \<Rightarrow> c = CHR ''-'');
          body = (case t of [] \<Rightarrow> t
                  | c # r \<Rightarrow> if c = CHR ''-'' \<or> c = CHR ''+'' then r else t)
      in if digits_ok body
         then Inr (if neg then - digits_value body else digits_value body)
         else Inl ValueError)"

function nat_digits :: "nat \<Rightarrow> string" where
  "nat_digits n =
     (if n < 10 then [char_of (48 + n)]
      else nat_digits (n div 10) @ [char_of (48 + n mod 10)])"
  by pat_completeness auto
termination
  by (relation "measure (\<lambda>n. n)") auto

declare nat_digits.simps [simp del]

definition py_str :: "int \<Rightarrow> string" where
  \<comment> \<open>\<^verbatim>\<open>str(n)\<close> for an integer\<close>
  "py_str n = (if n < 0 then CHR ''-'' # nat_digits (nat (- n)) else nat_digits (nat n))"

subsection \<open>The Luhn loop shared by generation and validation\<close>

text \<open>
  \<^verbatim>\<open>_get_account_num\<close> and \<^verbatim>\<open>is_card_number_valid\<close> contain the same loop
  \<^verbatim>\<open>for i, digit in enumerate(..., start=1)\<close>, which appends to a list of strings:
  a digit at an odd index is parsed, doubled, reduced by 9 when above 9 and converted
  back to a string; a digit at an even index is appended as it is. \<open>luhn_loop i s acc\<close>
  runs the loop over \<open>s\<close> from index \<open>i\<close> with the list built so far.
\<close>

fun luhn_loop :: "nat \<Rightarrow> string \<Rightarrow> string list \<Rightarrow> error + string list" where
  "luhn_loop i [] new_num = Inr new_num"
| "luhn_loop i (digit # rest) new_num =
     (if i mod 2 = 1 then
        (case py_int [digit] of
           Inl e \<Rightarrow> Inl e
         | Inr v \<Rightarrow>
             (let new_digit = v * 2;
                  new_digit = (if new_digit > 9 then new_digit - 9 else new_digit)
              in luhn_loop (i + 1) rest (new_num @ [py_str new_digit])))
      else luhn_loop (i + 1) rest (new_num @ [[digit]]))"

fun sum_map_int :: "string list \<Rightarrow> error + int" where
  \<comment> \<open>\<^verbatim>\<open>sum(map(int, xs))\<close>\<close>
  "sum_map_int [] = Inr 0"
| "sum_map_int (x # xs) =
     (case py_int x of
        Inl e \<Rightarrow> Inl e
      | Inr v \<Rightarrow> (case sum_map_int xs of Inl e \<Rightarrow> Inl e | Inr s \<Rightarrow> Inr (v + s)))"

definition math_ceil_div10 :: "int \<Rightarrow> int" where
  \<comment> \<open>\<^verbatim>\<open>math.ceil(s / 10)\<close>: the ceiling of the exact quotient. The source divides in
      binary floating point, which has the same ceiling for the sums that arise
      (15 digits give a sum of at most 135).\<close>
  "math_ceil_div10 s = - ((- s) div 10)"

subsection \<open>Validation\<close>

definition is_card_number_valid :: "string \<Rightarrow> error + bool" where
  "is_card_number_valid number =
     (case luhn_loop 1 (butlast number) [] of
        Inl e \<Rightarrow> Inl e
      | Inr new_number \<Rightarrow>
          (case sum_map_int new_number of
             Inl e \<Rightarrow> Inl e
           | Inr sum_new_number \<Rightarrow>
               (case number of
                  [] \<Rightarrow> Inl IndexError
                | _ # _ \<Rightarrow>
                    (case py_int [last number] of
                       Inl e \<Rightarrow> Inl e
                     | Inr d \<Rightarrow>
                         (let total = sum_new_number + d
                          in Inr (if total mod 10 = 0 then True else False))))))"

subsection \<open>The world: database, console, random source\<close>

text \<open>
  The table \<^verbatim>\<open>card\<close> is a finite map from the \<^verbatim>\<open>number\<close> column, which is
  \<^verbatim>\<open>UNIQUE\<close>, to the \<^verbatim>\<open>pin\<close> and \<^verbatim>\<open>balance\<close> columns (the \<^verbatim>\<open>id\<close> column is never
  selected). \<open>stdin\<close> holds the lines that \<^verbatim>\<open>input()\<close> will still read, \<open>stdout\<close>
  the characters written so far, \<open>randoms\<close> the values that the coming calls of
  \<^verbatim>\<open>random.randint(0, 9)\<close> return.
\<close>

record world =
  connection :: "string \<rightharpoonup> string \<times> int"
  stdin :: "string list"
  stdout :: string
  randoms :: "int stream"

datatype 'a result = Return 'a world | Raise error world

definition print :: "string \<Rightarrow> world \<Rightarrow> world" where
  "print s w = w\<lparr>stdout := stdout w @ s @ [CHR 0x0A]\<rparr>"

definition input :: "string \<Rightarrow> world \<Rightarrow> string result" where
  \<comment> \<open>\<^verbatim>\<open>input(prompt)\<close>; \<^verbatim>\<open>input()\<close> is \<open>input []\<close>\<close>
  "input prompt w =
     (case stdin w of
        [] \<Rightarrow> Raise EOFError (w\<lparr>stdout := stdout w @ prompt\<rparr>)
      | line # rest \<Rightarrow> Return line (w\<lparr>stdin := rest, stdout := stdout w @ prompt\<rparr>))"

definition randint_0_9 :: "world \<Rightarrow> int \<times> world" where
  "randint_0_9 w = (shd (randoms w), w\<lparr>randoms := stl (randoms w)\<rparr>)"

fun random_digits :: "nat \<Rightarrow> world \<Rightarrow> string \<times> world" where
  \<comment> \<open>\<^verbatim>\<open>''.join([str(random.randint(0, 9)) for _ in range(n)])\<close>\<close>
  "random_digits 0 w = ([], w)"
| "random_digits (Suc n) w =
     (case randint_0_9 w of
        (d, w1) \<Rightarrow> (case random_digits n w1 of (s, w2) \<Rightarrow> (py_str d @ s, w2)))"

subsection \<open>\<^verbatim>\<open>database.py\<close>\<close>


definition database_get_card_by_number :: "string \<Rightarrow> world \<Rightarrow> (string \<times> string \<times> int) list" where
  \<comment> \<open>\<^verbatim>\<open>SELECT number, pin, balance FROM card WHERE number = ?\<close>, all rows\<close>
  "database_get_card_by_number number w =
     (case connection w number of
        None \<Rightarrow> []
      | Some (pin, balance) \<Rightarrow> [(number, pin, balance)])"

definition database_add_income :: "string \<Rightarrow> int \<Rightarrow> world \<Rightarrow> world" where
  \<comment> \<open>\<^verbatim>\<open>UPDATE card SET balance = balance + ? WHERE number = ?\<close>\<close>
  "database_add_income number income w =
     (case connection w number of
        None \<Rightarrow> w
      | Some (pin, balance) \<Rightarrow>
          w\<lparr>connection := (connection w)(number \<mapsto> (pin, balance + income))\<rparr>)"

definition database_delete_card :: "string \<Rightarrow> world \<Rightarrow> world" where
  \<comment> \<open>\<^verbatim>\<open>DELETE FROM card WHERE number = ?\<close>\<close>
  "database_delete_card number w = w\<lparr>connection := (connection w)(number := None)\<rparr>"

definition do_card_number_exists :: "string \<Rightarrow> world \<Rightarrow> bool" where
  "do_card_number_exists number w =
     (let result = database_get_card_by_number number w
      in if result = [] then False else True)"

subsection \<open>\<^verbatim>\<open>class Account\<close>\<close>

text \<open>
  An account object has the attributes \<^verbatim>\<open>number\<close>, \<^verbatim>\<open>pin\<close> and \<^verbatim>\<open>balance\<close>; the
  balance is the copy read at login, updated by the methods. Its fourth attribute,
  \<^verbatim>\<open>connection\<close>, is the one handle of the banking system and lives in the world.
\<close>

record account =
  number :: string
  pin :: string
  balance :: int

definition Account_MENU :: string where
  "Account_MENU =
     [CHR 0x0A] @ ''    '' @ [CHR 0x0D] @ ''1. Balance'' @
     [CHR 0x0A] @ ''    '' @ [CHR 0x0D] @ ''2. Add income'' @
     [CHR 0x0A] @ ''    '' @ [CHR 0x0D] @ ''3. Do transfer'' @
     [CHR 0x0A] @ ''    '' @ [CHR 0x0D] @ ''4. Close account'' @
     [CHR 0x0A] @ ''    '' @ [CHR 0x0D] @ ''5. Log out'' @
     [CHR 0x0A] @ ''    '' @ [CHR 0x0D] @ ''0. Exit''"

definition issuer_num :: string where
  "issuer_num = ''400000''"

definition Account_get_account_num :: "world \<Rightarrow> string result" where
  "Account_get_account_num w =
     (case random_digits 9 w of
        (account_id, w1) \<Rightarrow>
          (let num = issuer_num @ account_id
           in case luhn_loop 1 num [] of
                Inl e \<Rightarrow> Raise e w1
              | Inr new_num \<Rightarrow>
                  (case sum_map_int new_num of
                     Inl e \<Rightarrow> Raise e w1
                   | Inr sum_new_num \<Rightarrow>
                       (let checksum = math_ceil_div10 sum_new_num;
                            checksum = checksum * 10 - sum_new_num;
                            new_num = num @ py_str checksum
                        in Return new_num w1))))"



definition Account_add_income :: "account \<Rightarrow> int \<Rightarrow> world \<Rightarrow> account \<times> world" where
  "Account_add_income self income w =
     (let w1 = database_add_income (number self) income w
      in (self\<lparr>balance := balance self + income\<rparr>, w1))"

definition Account_transfer_money :: "account \<Rightarrow> string \<Rightarrow> world \<Rightarrow> account result" where
  "Account_transfer_money self receiver w =
     (if receiver = number self then
        Return self (print (''You can'' @ [CHR 0x27] @ ''t transfer money to the same account!'') w)
      else
        (case is_card_number_valid receiver of
           Inl e \<Rightarrow> Raise e w
         | Inr valid \<Rightarrow>
             if \<not> valid then
               Return self
                 (print ''Probably you made a mistake in the card number. Please try again!'' w)
             else if \<not> do_card_number_exists receiver w then
               Return self (print ''Such a card does not exist.'' w)
             else
               (case input ([CHR 0x0A] @ ''Enter how much money you want to transfer:'' @ [CHR 0x0A]) w of
                  Raise e w1 \<Rightarrow> Raise e w1
                | Return line w1 \<Rightarrow>
                    (case py_int line of
                       Inl e \<Rightarrow> Raise e w1
                     | Inr amount \<Rightarrow>
                         if amount \<le> balance self then
                           (let w2 = database_add_income (number self) (- amount) w1;
                                self1 = self\<lparr>balance := balance self - amount\<rparr>;
                                w3 = database_add_income receiver amount w2
                            in Return self1 (print ''Success!'' w3))
                         else Return self (print ''Not enough money!'' w1)))))"

definition Account_delete_account :: "account \<Rightarrow> world \<Rightarrow> world" where
  "Account_delete_account self w = database_delete_card (number self) w"

text \<open>The world in which a computation ends, by a return or by an exception.\<close>

fun final_world :: "'a result \<Rightarrow> world" where
  "final_world (Return x w) = w"
| "final_world (Raise e w) = w"

subsection \<open>The account menu\<close>

text \<open>
  Each round of \<^verbatim>\<open>Account.menu\<close> reads a line, so the loop ends when the input does
  (\<^verbatim>\<open>input()\<close> raises \<^verbatim>\<open>EOFError\<close>); the measure is the number of lines left.
\<close>

lemma stdin_print [simp]: "stdin (print s w) = stdin w"
  by (simp add: print_def)

lemma connection_print [simp]: "connection (print s w) = connection w"
  by (simp add: print_def)

lemma input_Return:
  "input p w = Return l w1 \<Longrightarrow> stdin w = l # stdin w1 \<and> connection w1 = connection w"
  by (auto simp: input_def split: list.splits)

lemma input_Raise:
  "input p w = Raise e w1 \<Longrightarrow> e = EOFError \<and> stdin w1 = stdin w \<and> connection w1 = connection w"
  by (auto simp: input_def split: list.splits)

lemma stdin_database_add_income [simp]: "stdin (database_add_income n x w) = stdin w"
  by (simp add: database_add_income_def split: option.splits prod.splits)

lemma stdin_database_delete_card [simp]: "stdin (database_delete_card n w) = stdin w"
  by (simp add: database_delete_card_def)

lemma Account_transfer_money_stdin:
  "length (stdin (final_world (Account_transfer_money self r w))) \<le> length (stdin w)"
  by (auto simp: Account_transfer_money_def Let_def
           split: if_splits sum.splits result.splits dest!: input_Return input_Raise)

lemma Account_transfer_money_stdin_Return:
  "Account_transfer_money self r w = Return s w1 \<Longrightarrow> length (stdin w1) \<le> length (stdin w)"
  using Account_transfer_money_stdin [of self r w] by simp

function Account_menu :: "account \<Rightarrow> world \<Rightarrow> unit result" where
  "Account_menu self w =
     (case input [] (print Account_MENU w) of
        Raise e w1 \<Rightarrow> Raise e w1
      | Return action w1 \<Rightarrow>
          if action = ''0'' then Raise SystemExit (print ([CHR 0x0A] @ ''Bye!'') w1)
          else if action = ''1'' then
            Account_menu self (print ([CHR 0x0A] @ ''Balance: '' @ py_str (balance self)) w1)
          else if action = ''2'' then
            (case input ([CHR 0x0A] @ ''Enter income:'' @ [CHR 0x0A]) w1 of
               Raise e w2 \<Rightarrow> Raise e w2
             | Return line w2 \<Rightarrow>
                 (case py_int line of
                    Inl e \<Rightarrow> Raise e w2
                  | Inr income \<Rightarrow>
                      (case Account_add_income self income w2 of
                         (self1, w3) \<Rightarrow> Account_menu self1 (print ''Income was added!'' w3))))
          else if action = ''3'' then
            (case input (''Enter card number:'' @ [CHR 0x0A]) (print ([CHR 0x0A] @ ''Transfer'') w1) of
               Raise e w2 \<Rightarrow> Raise e w2
             | Return receiver w2 \<Rightarrow>
                 (case Account_transfer_money self receiver w2 of
                    Raise e w3 \<Rightarrow> Raise e w3
                  | Return self1 w3 \<Rightarrow> Account_menu self1 w3))
          else if action = ''4'' then Account_menu self (Account_delete_account self w1)
          else if action = ''5'' then
            Return () (print ([CHR 0x0A] @ ''You have successfully logged out!'') w1)
          else Raise NotImplementedError w1)"
  by pat_completeness auto
termination
  by (relation "measure (\<lambda>(self, w). length (stdin w))")
     (auto simp: Account_add_income_def Account_delete_account_def Let_def
           dest!: input_Return Account_transfer_money_stdin_Return)

declare Account_menu.simps [simp del]



subsection \<open>\<^verbatim>\<open>class BankingSystem\<close>\<close>

lemma random_digits_eq:
  "random_digits n w =
     (concat (map py_str (stake n (randoms w))), w\<lparr>randoms := sdrop n (randoms w)\<rparr>)"
  by (induction n arbitrary: w) (simp_all add: randint_0_9_def)




definition BankingSystem_login :: "world \<Rightarrow> unit result" where
  "BankingSystem_login w =
     (case input [] (print ([CHR 0x0A] @ ''Enter your card number:'') w) of
        Raise e w1 \<Rightarrow> Raise e w1
      | Return card_num_inp w1 \<Rightarrow>
          (case input [] (print ''Enter your PIN:'' w1) of
             Raise e w2 \<Rightarrow> Raise e w2
           | Return pin_inp w2 \<Rightarrow>
               (case database_get_card_by_number card_num_inp w2 of
                  [] \<Rightarrow> Return () (print ([CHR 0x0A] @ ''Wrong card number or PIN!'') w2)
                | (card_num, pin_row, balance_row) # _ \<Rightarrow>
                    if pin_inp \<noteq> pin_row then
                      Return () (print ([CHR 0x0A] @ ''Wrong card number or PIN!'') w2)
                    else
                      Account_menu
                        \<lparr>number = card_num, pin = pin_row, balance = balance_row\<rparr>
                        (print ([CHR 0x0A] @ ''You have successfully logged in!'') w2))))"





section \<open>Account numbers\<close>

subsection \<open>The Luhn sum as a function of the digits\<close>

definition dbl :: "int \<Rightarrow> int" where
  "dbl v = (if v * 2 > 9 then v * 2 - 9 else v * 2)"

fun luhn_sum :: "nat \<Rightarrow> string \<Rightarrow> int" where
  "luhn_sum i [] = 0"
| "luhn_sum i (c # cs) =
     (if i mod 2 = 1 then dbl (digit_val c) else digit_val c) + luhn_sum (i + 1) cs"

definition weight :: "nat \<Rightarrow> char \<Rightarrow> int" where
  "weight i c = (if i mod 2 = 1 then dbl (digit_val c) else digit_val c)"

text \<open>Accounts and a database for the examples.\<close>

definition acc_A :: string where "acc_A = ''4000001234567899''"
definition acc_B :: string where "acc_B = ''4000009876543219''"
definition acc_C :: string where "acc_C = ''4000007777777779''"

definition self_A :: account where
  "self_A = \<lparr>number = acc_A, pin = ''1234'', balance = 200\<rparr>"

definition bank :: "string list \<Rightarrow> world" where
  "bank lines =
     \<lparr>connection = [acc_A \<mapsto> (''1234'', 200), acc_B \<mapsto> (''4321'', 0)],
      stdin = lines, stdout = [], randoms = sconst 0\<rparr>"

text \<open>
  The balances of a table are non-negative; no line of the input reads as a negative
  integer; a world is safe when both hold, and an account object is coherent with a
  world when, besides, its cached balance is the balance of its row, if it has one.
\<close>

definition nonneg_balances :: "(string \<rightharpoonup> string \<times> int) \<Rightarrow> bool" where
  "nonneg_balances c \<longleftrightarrow> (\<forall>n p b. c n = Some (p, b) \<longrightarrow> 0 \<le> b)"

definition nonneg_inputs :: "string list \<Rightarrow> bool" where
  "nonneg_inputs ls \<longleftrightarrow> (\<forall>l\<in>set ls. \<forall>a. py_int l = Inr a \<longrightarrow> 0 \<le> a)"

definition safe :: "world \<Rightarrow> bool" where
  "safe w \<longleftrightarrow> nonneg_balances (connection w) \<and> nonneg_inputs (stdin w)"

definition coherent :: "account \<Rightarrow> world \<Rightarrow> bool" where
  "coherent self w \<longleftrightarrow>
     safe w \<and> (\<forall>p b. connection w (number self) = Some (p, b) \<longrightarrow> b = balance self)"


lemma math_ceil_div10_ceiling: "math_ceil_div10 s = \<lceil>real_of_int s / 10\<rceil>"
proof -
  have "\<lceil>real_of_int s / 10\<rceil> = - \<lfloor>real_of_int (- s) / real_of_int 10\<rfloor>"
    by (simp add: ceiling_def)
  also have "\<dots> = - ((- s) div 10)"
    by (simp only: floor_divide_of_int_eq)
  finally show ?thesis by (simp add: math_ceil_div10_def)
qed

lemma py_int_single:
  "py_int [c] = (if py_isdigit c then Inr (digit_val c) else Inl ValueError)"
  by (auto simp: py_int_def py_strip_def py_isdigit_def py_isspace_def digits_value_def Let_def)

lemma py_int_error: "py_int s = Inl e \<Longrightarrow> e = ValueError"
  by (auto simp: py_int_def Let_def split: if_splits)

lemma digit_val_range: "py_isdigit c \<Longrightarrow> 0 \<le> digit_val c \<and> digit_val c \<le> 9"
  by (auto simp: py_isdigit_def digit_val_def)

lemma py_str_digit: "0 \<le> d \<Longrightarrow> d \<le> 9 \<Longrightarrow> py_str d = [char_of (48 + nat d)]"
  by (simp add: py_str_def nat_digits.simps)

lemma digit_char:
  "0 \<le> d \<Longrightarrow> d \<le> 9 \<Longrightarrow>
   py_isdigit (char_of (48 + nat d)) \<and> digit_val (char_of (48 + nat d)) = d"
  by (simp add: py_isdigit_def digit_val_def)

lemma py_int_py_str_digit: "0 \<le> d \<Longrightarrow> d \<le> 9 \<Longrightarrow> py_int (py_str d) = Inr d"
  by (simp add: py_str_digit py_int_single digit_char)

lemma dbl_range: "0 \<le> v \<Longrightarrow> v \<le> 9 \<Longrightarrow> 0 \<le> dbl v \<and> dbl v \<le> 9"
  by (auto simp: dbl_def)

lemma sum_map_int_append:
  "sum_map_int (xs @ ys) =
     (case sum_map_int xs of
        Inl e \<Rightarrow> Inl e
      | Inr a \<Rightarrow> (case sum_map_int ys of Inl e \<Rightarrow> Inl e | Inr b \<Rightarrow> Inr (a + b)))"
  by (induction xs) (auto split: sum.splits)

lemma sum_map_int_error: "sum_map_int xs = Inl e \<Longrightarrow> e = ValueError"
  by (induction xs arbitrary: e) (auto split: sum.splits dest: py_int_error)

lemma luhn_loop_digits:
  "\<forall>c\<in>set s. py_isdigit c \<Longrightarrow> sum_map_int acc = Inr a \<Longrightarrow>
   \<exists>new. luhn_loop i s acc = Inr new \<and> sum_map_int new = Inr (a + luhn_sum i s)"
proof (induction s arbitrary: i acc a)
  case Nil
  then show ?case by simp
next
  case (Cons c s)
  have c: "py_isdigit c" using Cons.prems(1) by simp
  have rest: "\<forall>c\<in>set s. py_isdigit c" using Cons.prems(1) by simp
  show ?case
  proof (cases "i mod 2 = 1")
    case True
    have r: "0 \<le> dbl (digit_val c) \<and> dbl (digit_val c) \<le> 9"
      using digit_val_range [OF c] dbl_range by blast
    have "sum_map_int (acc @ [py_str (dbl (digit_val c))]) = Inr (a + dbl (digit_val c))"
      using Cons.prems(2) r by (simp add: sum_map_int_append py_int_py_str_digit)
    from Cons.IH [OF rest this, of "i + 1"] True c show ?thesis
      by (simp add: py_int_single dbl_def Let_def add.assoc)
  next
    case False
    have "sum_map_int (acc @ [[c]]) = Inr (a + digit_val c)"
      using Cons.prems(2) c by (simp add: sum_map_int_append py_int_single)
    from Cons.IH [OF rest this, of "i + 1"] False show ?thesis
      by (simp add: add.assoc)
  qed
qed

lemma luhn_loop_error:
  "sum_map_int acc = Inl ValueError \<Longrightarrow>
   (case luhn_loop i s acc of Inl e \<Rightarrow> Inl e | Inr new \<Rightarrow> sum_map_int new) = Inl ValueError"
proof (induction s arbitrary: i acc)
  case Nil
  then show ?case by simp
next
  case (Cons c s)
  have step: "\<And>x. sum_map_int (acc @ [x]) = Inl ValueError"
    using Cons.prems by (simp add: sum_map_int_append)
  show ?case
    using Cons.IH [OF step] 
    by (auto simp: py_int_single Let_def)
qed

lemma luhn_loop_nondigit:
  "\<exists>c\<in>set s. \<not> py_isdigit c \<Longrightarrow>
   (case luhn_loop i s acc of Inl e \<Rightarrow> Inl e | Inr new \<Rightarrow> sum_map_int new) = Inl ValueError"
proof (induction s arbitrary: i acc)
  case Nil
  then show ?case by simp
next
  case (Cons c s)
  show ?case
  proof (cases "py_isdigit c")
    case True
    then have "\<exists>c\<in>set s. \<not> py_isdigit c" using Cons.prems by auto
    from Cons.IH [OF this] show ?thesis
      by (auto simp: py_int_single Let_def)
  next
    case False
    have bad: "sum_map_int (acc @ [[c]]) = Inl ValueError"
      using False sum_map_int_error [of acc]
      by (auto simp: sum_map_int_append py_int_single split: sum.splits)
    show ?thesis
      using False luhn_loop_error [OF bad, of "i + 1" s]
      by (auto simp: py_int_single)
  qed
qed

lemma is_card_number_valid_digits:
  assumes "s \<noteq> []" and "\<forall>c\<in>set s. py_isdigit c"
  shows "is_card_number_valid s =
           Inr ((luhn_sum 1 (butlast s) + digit_val (last s)) mod 10 = 0)"
proof -
  have "\<forall>c\<in>set (butlast s). py_isdigit c"
    using assms(2) by (auto dest: in_set_butlastD)
  from luhn_loop_digits [OF this, of "[]" 0 1]
  obtain new where new: "luhn_loop 1 (butlast s) [] = Inr new"
    "sum_map_int new = Inr (luhn_sum 1 (butlast s))" by auto
  have "py_isdigit (last s)" using assms by simp
  with new assms(1) show ?thesis
    by (cases s) (simp_all add: is_card_number_valid_def py_int_single)
qed

lemma is_card_number_valid_nondigit:
  assumes "\<exists>c\<in>set s. \<not> py_isdigit c"
  shows "is_card_number_valid s = Inl ValueError"
proof (cases "\<exists>c\<in>set (butlast s). \<not> py_isdigit c")
  case True
  from luhn_loop_nondigit [OF this, of 1 "[]"] show ?thesis
    by (auto simp: is_card_number_valid_def split: sum.splits)
next
  case False
  from assms have ne: "s \<noteq> []" by auto
  then have "s = butlast s @ [last s]" by simp
  then have "set s = set (butlast s) \<union> {last s}"
    by (metis list.set(1) list.simps(15) set_append sup_commute insert_is_Un)
  with False assms have l: "\<not> py_isdigit (last s)" by auto
  from False have "\<forall>c\<in>set (butlast s). py_isdigit c" by simp
  from luhn_loop_digits [OF this, of "[]" 0 1]
  obtain new where new: "luhn_loop 1 (butlast s) [] = Inr new"
    "sum_map_int new = Inr (luhn_sum 1 (butlast s))" by auto
  with l ne show ?thesis
    by (cases s) (simp_all add: is_card_number_valid_def py_int_single)
qed

lemma checksum_digit:
  assumes "c = math_ceil_div10 s * 10 - s"
  shows "0 \<le> c \<and> c \<le> 9 \<and> (s + c) mod 10 = 0"
  using assms unfolding math_ceil_div10_def by presburger

lemma issuer_digits: "\<forall>c\<in>set issuer_num. py_isdigit c"
  by (simp add: issuer_num_def py_isdigit_def)

lemma py_str_digits:
  "\<forall>d\<in>set ds. 0 \<le> d \<and> d \<le> 9 \<Longrightarrow> \<forall>c\<in>set (concat (map py_str ds)). py_isdigit c"
  by (induction ds) (auto simp: py_str_digit digit_char)

text \<open>
  C1. Round trip of generation and validation: whatever nine digits the random source
  gives, \<^verbatim>\<open>_get_account_num\<close> returns a number that \<^verbatim>\<open>is_card_number_valid\<close>
  accepts.
\<close>

theorem generated_number_is_valid:
  assumes draws: "\<forall>d\<in>set (stake 9 (randoms w)). 0 \<le> d \<and> d \<le> 9"
  shows "\<exists>n w'. Account_get_account_num w = Return n w' \<and> is_card_number_valid n = Inr True"
proof -
  define num where "num = issuer_num @ concat (map py_str (stake 9 (randoms w)))"
  define S where "S = luhn_sum 1 num"
  define c where "c = math_ceil_div10 S * 10 - S"
  have dig: "\<forall>c\<in>set num. py_isdigit c"
    using issuer_digits py_str_digits [OF draws] by (auto simp: num_def)
  from luhn_loop_digits [OF dig, of "[]" 0 1]
  obtain new where new: "luhn_loop 1 num [] = Inr new" "sum_map_int new = Inr S"
    by (auto simp: S_def)
  have c: "0 \<le> c" "c \<le> 9" "(S + c) mod 10 = 0"
    using checksum_digit [of c S] by (simp_all add: c_def)
  have gen: "Account_get_account_num w =
      Return (num @ py_str c) (w\<lparr>randoms := sdrop 9 (randoms w)\<rparr>)"
    using new by (simp add: Account_get_account_num_def random_digits_eq Let_def num_def c_def)
  have str: "py_str c = [char_of (48 + nat c)]"
    using c by (simp add: py_str_digit)
  have "is_card_number_valid (num @ [char_of (48 + nat c)]) =
      Inr ((luhn_sum 1 num + c) mod 10 = 0)"
    using is_card_number_valid_digits [of "num @ [char_of (48 + nat c)]"] dig digit_char [of c] c
    by simp
  with c have "is_card_number_valid (num @ py_str c) = Inr True"
    by (simp add: str S_def)
  with gen show ?thesis by blast
qed

lemma stake_numeral: "stake (numeral k) s = shd s # stake (pred_numeral k) (stl s)"
  by (simp add: numeral_eq_Suc)


theorem generated_number_is_valid_witness:
  "\<exists>n w'. Account_get_account_num
      \<lparr>connection = Map.empty, stdin = [], stdout = [],
       randoms = [1, 2, 3, 4, 5, 6, 7, 8, 9] @- sconst 0\<rparr> = Return n w'
    \<and> is_card_number_valid n = Inr True"
proof -
  have "\<forall>d\<in>set (stake 9 (randoms \<lparr>connection = Map.empty, stdin = [], stdout = [],
       randoms = [1, 2, 3, 4, 5, 6, 7, 8, 9] @- sconst 0\<rparr>)). 0 \<le> d \<and> d \<le> 9"
    by (simp add: stake_numeral)
  from generated_number_is_valid [OF this] show ?thesis .
qed

text \<open>
  C8. Validation does raise: \<^verbatim>\<open>number[-1]\<close> of the empty string is an
  \<^verbatim>\<open>IndexError\<close>, and \<^verbatim>\<open>int()\<close> of a character that is not a digit is a
  \<^verbatim>\<open>ValueError\<close>.
\<close>

theorem is_card_number_valid_raises:
  "is_card_number_valid [] = Inl IndexError
   \<and> is_card_number_valid ''400000123456789x'' = Inl ValueError"
  by code_simp

text \<open>
  C8, as the code has it: \<^verbatim>\<open>is_card_number_valid\<close> returns a boolean exactly for the
  non-empty strings of decimal digits, of any length.
\<close>

theorem is_card_number_valid_returns_iff:
  "(\<exists>b. is_card_number_valid s = Inr b) \<longleftrightarrow> s \<noteq> [] \<and> (\<forall>c\<in>set s. py_isdigit c)"
proof (cases "s = []")
  case True
  then show ?thesis by (simp add: is_card_number_valid_def)
next
  case False
  show ?thesis
  proof (cases "\<forall>c\<in>set s. py_isdigit c")
    case True
    with False is_card_number_valid_digits [of s] show ?thesis by simp
  next
    case nd: False
    then have "is_card_number_valid s = Inl ValueError"
      by (intro is_card_number_valid_nondigit) simp
    with nd show ?thesis by simp
  qed
qed

theorem is_card_number_valid_returns_iff_witness:
  "\<exists>b. is_card_number_valid ''4000001234567899'' = Inr b"
  using is_card_number_valid_returns_iff [of "''4000001234567899''"]
  by (simp add: py_isdigit_def)

lemma luhn_sum_update:
  "k < length s \<Longrightarrow>
   luhn_sum i (s[k := d]) = luhn_sum i s - weight (i + k) (s ! k) + weight (i + k) d"
proof (induction s arbitrary: i k)
  case Nil
  then show ?case by simp
next
  case (Cons c s)
  show ?case
  proof (cases k)
    case 0
    then show ?thesis by (simp add: weight_def)
  next
    case (Suc j)
    with Cons.prems have "j < length s" by simp
    from Cons.IH [OF this, of "i + 1"] Suc show ?thesis by simp
  qed
qed

lemma digit_val_inj: "digit_val c = digit_val d \<Longrightarrow> c = d"
  by (simp add: digit_val_def)

lemma dbl_inj:
  assumes "0 \<le> a" "a \<le> 9" "0 \<le> b" "b \<le> 9" "dbl a = dbl b"
  shows "a = b"
  using assms unfolding dbl_def by (auto split: if_splits) presburger+

lemma weight_range: "py_isdigit c \<Longrightarrow> 0 \<le> weight i c \<and> weight i c \<le> 9"
  using digit_val_range [of c] dbl_range [of "digit_val c"] by (simp add: weight_def)

lemma weight_inj:
  "py_isdigit c \<Longrightarrow> py_isdigit d \<Longrightarrow> weight i c = weight i d \<Longrightarrow> c = d"
  using digit_val_range [of c] digit_val_range [of d]
    dbl_inj [of "digit_val c" "digit_val d"] digit_val_inj [of c d]
  by (auto simp: weight_def split: if_splits)

lemma mod10_shift:
  fixes t a b :: int
  assumes "t mod 10 = 0" "0 \<le> a" "a \<le> 9" "0 \<le> b" "b \<le> 9" "a \<noteq> b"
  shows "(t - a + b) mod 10 \<noteq> 0"
  using assms by presburger

text \<open>
  C9. Replacing one digit of a valid number by a different digit makes it invalid: both
  the doubling rule and the identity are injective on the digits, so the total moves by
  a non-zero amount between -9 and 9. The statement holds for digit strings of every
  length, 16 among them.
\<close>

theorem single_digit_mutation_invalidates:
  assumes digits: "\<forall>c\<in>set n. py_isdigit c"
    and valid: "is_card_number_valid n = Inr True"
    and k: "k < length n"
    and d: "py_isdigit d" "d \<noteq> n ! k"
  shows "is_card_number_valid (n[k := d]) = Inr False"
proof -
  from k have ne: "n \<noteq> []" by auto
  have nk: "py_isdigit (n ! k)" using digits k by simp
  have digits': "\<forall>c\<in>set (n[k := d]). py_isdigit c"
    using digits d(1) set_update_subset_insert [of n k d] by auto
  define t where "t = luhn_sum 1 (butlast n) + digit_val (last n)"
  have t: "t mod 10 = 0"
    using valid is_card_number_valid_digits [OF ne digits] by (simp add: t_def)
  have v': "is_card_number_valid (n[k := d]) =
      Inr ((luhn_sum 1 (butlast (n[k := d])) + digit_val (last (n[k := d]))) mod 10 = 0)"
    using is_card_number_valid_digits [of "n[k := d]"] ne digits' by simp
  have "\<exists>a b. 0 \<le> a \<and> a \<le> 9 \<and> 0 \<le> b \<and> b \<le> 9 \<and> a \<noteq> b \<and>
      luhn_sum 1 (butlast (n[k := d])) + digit_val (last (n[k := d])) = t - a + b"
  proof (cases "k = length n - 1")
    case True
    then have "butlast (n[k := d]) = butlast n" "last (n[k := d]) = d" "last n = n ! k"
      using ne by (simp_all add: butlast_list_update last_list_update last_conv_nth)
    moreover have "digit_val (n ! k) \<noteq> digit_val d"
      using d(2) digit_val_inj by blast
    ultimately show ?thesis
      using digit_val_range [OF nk] digit_val_range [OF d(1)]
      by (intro exI [of _ "digit_val (n ! k)"] exI [of _ "digit_val d"]) (simp add: t_def)
  next
    case False
    with k have kb: "k < length (butlast n)" by simp
    then have "butlast (n[k := d]) = (butlast n)[k := d]" "last (n[k := d]) = last n"
      "butlast n ! k = n ! k"
      using ne False by (simp_all add: butlast_list_update last_list_update nth_butlast)
    moreover have "weight (1 + k) (n ! k) \<noteq> weight (1 + k) d"
      using weight_inj [OF nk d(1)] d(2) by blast
    ultimately show ?thesis
      using luhn_sum_update [OF kb, of 1 d] weight_range [OF nk, of "1 + k"]
        weight_range [OF d(1), of "1 + k"]
      by (intro exI [of _ "weight (1 + k) (n ! k)"] exI [of _ "weight (1 + k) d"])
         (simp add: t_def)
  qed
  then obtain a b where "0 \<le> a" "a \<le> 9" "0 \<le> b" "b \<le> 9" "a \<noteq> b"
    and eq: "luhn_sum 1 (butlast (n[k := d])) + digit_val (last (n[k := d])) = t - a + b"
    by blast
  from mod10_shift [OF t this(1-5)]
  have "(luhn_sum 1 (butlast (n[k := d])) + digit_val (last (n[k := d]))) mod 10 \<noteq> 0"
    unfolding eq .
  then show ?thesis unfolding v' by simp
qed

theorem single_digit_mutation_invalidates_witness:
  "is_card_number_valid (''4000001234567899''[7 := CHR ''0'']) = Inr False"
proof -
  have v: "is_card_number_valid ''4000001234567899'' = Inr True"
    by code_simp
  show ?thesis
    by (rule single_digit_mutation_invalidates [OF _ v]) (simp_all add: py_isdigit_def)
qed

section \<open>Transfers\<close>

lemma acc_valid:
  "is_card_number_valid acc_A = Inr True"
  "is_card_number_valid acc_B = Inr True"
  "is_card_number_valid acc_C = Inr True"
  "is_card_number_valid ''4000009876543210'' = Inr False"
  unfolding acc_A_def acc_B_def acc_C_def by code_simp+

lemma acc_distinct:
  "acc_A \<noteq> acc_B" "acc_B \<noteq> acc_A" "acc_A \<noteq> acc_C" "acc_C \<noteq> acc_A" "acc_B \<noteq> acc_C" "acc_C \<noteq> acc_B"
  "acc_A \<noteq> ''4000009876543210''" "acc_B \<noteq> ''4000009876543210''"
  "''4000009876543210'' \<noteq> acc_A" "''4000009876543210'' \<noteq> acc_B"
  by (simp_all add: acc_A_def acc_B_def acc_C_def)

lemma py_int_examples:
  "py_int ''50'' = Inr 50" "py_int ''1000'' = Inr 1000" "py_int ''-5'' = Inr (- 5)"
  "py_int ''100'' = Inr 100" "py_int ''0'' = Inr 0"
  by code_simp+

lemmas transfer_defs =
  Account_transfer_money_def input_def do_card_number_exists_def
  database_get_card_by_number_def database_add_income_def print_def Let_def





text \<open>
  C4. The guards of \<^verbatim>\<open>transfer_money\<close> in their order: own number, checksum,
  existence, funds. Where one of the first three rejects, the world is the one before
  the call with the message printed: no line of input is read, so the amount is not
  asked for, and the outcome does not depend on it.
\<close>

theorem transfer_guard_order:
  "(receiver = number self \<longrightarrow>
      Account_transfer_money self receiver w =
        Return self (print (''You can'' @ [CHR 0x27] @ ''t transfer money to the same account!'') w))
   \<and> (receiver \<noteq> number self \<and> is_card_number_valid receiver = Inr False \<longrightarrow>
      Account_transfer_money self receiver w =
        Return self (print ''Probably you made a mistake in the card number. Please try again!'' w))
   \<and> (receiver \<noteq> number self \<and> is_card_number_valid receiver = Inr True
        \<and> connection w receiver = None \<longrightarrow>
      Account_transfer_money self receiver w =
        Return self (print ''Such a card does not exist.'' w))
   \<and> (receiver \<noteq> number self \<and> is_card_number_valid receiver = Inr True
        \<and> connection w receiver \<noteq> None \<and> stdin w = line # rest \<and> py_int line = Inr amount
        \<and> balance self < amount \<longrightarrow>
      Account_transfer_money self receiver w =
        Return self (print ''Not enough money!''
          (w\<lparr>stdin := rest,
             stdout := stdout w @ [CHR 0x0A] @ ''Enter how much money you want to transfer:''
               @ [CHR 0x0A]\<rparr>)))"
  by (auto simp add: transfer_defs split: option.splits)

theorem transfer_guard_order_witness:
  "Account_transfer_money self_A acc_A (bank [''50'']) =
     Return self_A
       (print (''You can'' @ [CHR 0x27] @ ''t transfer money to the same account!'') (bank [''50'']))
   \<and> Account_transfer_money self_A ''4000009876543210'' (bank [''50'']) =
     Return self_A
       (print ''Probably you made a mistake in the card number. Please try again!'' (bank [''50'']))
   \<and> Account_transfer_money self_A acc_C (bank [''50'']) =
     Return self_A (print ''Such a card does not exist.'' (bank [''50'']))
   \<and> Account_transfer_money self_A acc_B (bank [''1000'']) =
     Return self_A (print ''Not enough money!''
       ((bank [''1000''])\<lparr>stdin := [],
          stdout := stdout (bank [''1000'']) @ [CHR 0x0A]
            @ ''Enter how much money you want to transfer:'' @ [CHR 0x0A]\<rparr>))"
  using transfer_guard_order [of acc_A self_A "bank [''50'']"]
    transfer_guard_order [of "''4000009876543210''" self_A "bank [''50'']"]
    transfer_guard_order [of acc_C self_A "bank [''50'']"]
    transfer_guard_order [of acc_B self_A "bank [''1000'']" "''1000''" "[]" 1000]
  by (simp add: acc_valid acc_distinct py_int_examples self_A_def bank_def)



section \<open>Login\<close>

text \<open>
  C6. \<^verbatim>\<open>login\<close> reads the card number and the PIN. It opens the account menu exactly
  when the table has a row for the number whose PIN is the one entered; an unknown
  number and a wrong PIN end in the same world with the same message, and the account
  menu is not entered.
\<close>

theorem login_contract:
  assumes "stdin w = card_num_inp # pin_inp # rest"
  defines "w2 \<equiv> w\<lparr>stdin := rest,
      stdout := stdout w @ [CHR 0x0A] @ ''Enter your card number:'' @ [CHR 0x0A]
         @ ''Enter your PIN:'' @ [CHR 0x0A]\<rparr>"
  shows "(connection w card_num_inp = None \<longrightarrow>
            BankingSystem_login w =
              Return () (print ([CHR 0x0A] @ ''Wrong card number or PIN!'') w2))
       \<and> (\<forall>p b. connection w card_num_inp = Some (p, b) \<longrightarrow>
            BankingSystem_login w =
              (if pin_inp = p
               then Account_menu \<lparr>number = card_num_inp, pin = p, balance = b\<rparr>
                      (print ([CHR 0x0A] @ ''You have successfully logged in!'') w2)
               else Return () (print ([CHR 0x0A] @ ''Wrong card number or PIN!'') w2)))"
  using assms(1)
  by (auto simp add: w2_def BankingSystem_login_def input_def database_get_card_by_number_def
        print_def)

theorem login_contract_witness:
  "BankingSystem_login (bank [acc_C, ''1234'', ''1'']) =
     Return () (print ([CHR 0x0A] @ ''Wrong card number or PIN!'')
       ((bank [acc_C, ''1234'', ''1''])\<lparr>stdin := [''1''],
          stdout := [CHR 0x0A] @ ''Enter your card number:'' @ [CHR 0x0A]
            @ ''Enter your PIN:'' @ [CHR 0x0A]\<rparr>))
   \<and> BankingSystem_login (bank [acc_A, ''4321'', ''1'']) =
     Return () (print ([CHR 0x0A] @ ''Wrong card number or PIN!'')
       ((bank [acc_A, ''4321'', ''1''])\<lparr>stdin := [''1''],
          stdout := [CHR 0x0A] @ ''Enter your card number:'' @ [CHR 0x0A]
            @ ''Enter your PIN:'' @ [CHR 0x0A]\<rparr>))
   \<and> BankingSystem_login (bank [acc_A, ''1234'', ''1'']) =
     Account_menu \<lparr>number = acc_A, pin = ''1234'', balance = 200\<rparr>
       (print ([CHR 0x0A] @ ''You have successfully logged in!'')
         ((bank [acc_A, ''1234'', ''1''])\<lparr>stdin := [''1''],
            stdout := [CHR 0x0A] @ ''Enter your card number:'' @ [CHR 0x0A]
              @ ''Enter your PIN:'' @ [CHR 0x0A]\<rparr>))"
  using login_contract [of "bank [acc_C, ''1234'', ''1'']" acc_C "''1234''" "[''1'']"]
    login_contract [of "bank [acc_A, ''4321'', ''1'']" acc_A "''4321''" "[''1'']"]
    login_contract [of "bank [acc_A, ''1234'', ''1'']" acc_A "''1234''" "[''1'']"]
  by (simp add: bank_def acc_distinct)

section \<open>Closing an account\<close>

lemmas run_defs =
  Account_menu.simps Account_transfer_money_def Account_add_income_def Account_delete_account_def
  input_def print_def do_card_number_exists_def database_get_card_by_number_def
  database_add_income_def database_delete_card_def Let_def

text \<open>
  C7. After \<^verbatim>\<open>delete_account\<close> the loop of \<^verbatim>\<open>Account.menu\<close> goes on: the branch for
  action 4 has no \<^verbatim>\<open>break\<close>, unlike the branch for action 5. Here the account is
  closed and the session then transfers 50 to another account, which is credited
  although the sender has no row any more.
\<close>

theorem session_continues_after_closure:
  "\<exists>w'. Account_menu self_A (bank [''4'', ''3'', acc_B, ''50'', ''5'']) = Return () w'
      \<and> connection w' acc_A = None \<and> connection w' acc_B = Some (''4321'', 50)"
  by (simp add: run_defs self_A_def bank_def acc_valid acc_distinct py_int_examples)

section \<open>Balances\<close>

lemma safe_print [simp]: "safe (print s w) = safe w"
  by (simp add: safe_def)

lemma coherent_print [simp]: "coherent self (print s w) = coherent self w"
  by (simp add: coherent_def)



















end
